theory Spec2Isabelle
  imports Main
begin

section \<open>Data model\<close>

text \<open>
  The poster session area of \<^verbatim>\<open>src/town/PosterSessionArea.ts\<close>. A JavaScript
  \<^verbatim>\<open>number\<close> is read at its integer values only, as \<^typ>\<open>int\<close>; a field of type
  \<^verbatim>\<open>T | undefined\<close> (or an optional property) is a \<^typ>\<open>'a option\<close> with
  \<^term>\<open>None\<close> for \<^verbatim>\<open>undefined\<close>; a thrown \<^verbatim>\<open>Error\<close> is the left summand of a
  sum type.
\<close>

datatype error =
    Error string
  | InvalidTownIDError
  | InvalidSessionTokenError
  | InvalidInteractableIDError
  | ValidationError

text \<open>
  The message \<^verbatim>\<open>fromMapObject\<close> throws with; the specification calls this error the
  geometry error.
\<close>

definition GeometryError :: error where
  "GeometryError = Error ''Missing width and/or height in mapObject.''"

text \<open>
  Modelled from the spec: \<^verbatim>\<open>Player\<close> (\<^verbatim>\<open>lib/Player\<close> is not among the sources): an
  identifier and the session token of the player's connection. Two players are the same
  object (\<^verbatim>\<open>===\<close>) when the records are equal.
\<close>

record Player =
  player_id :: string
  sessionToken :: string

text \<open>The transport model \<^verbatim>\<open>PosterSessionAreaModel\<close>: \<^verbatim>\<open>{ id, stars, imageContents, title }\<close>.\<close>

record PosterSessionAreaModel =
  model_id :: string
  model_stars :: int
  model_imageContents :: "string option"
  model_title :: "string option"

record BoundingBox =
  bb_x :: int
  bb_y :: int
  bb_width :: int
  bb_height :: int

text \<open>
  The fields of \<^verbatim>\<open>ITiledMapObject\<close> that \<^verbatim>\<open>fromMapObject\<close> reads; \<^verbatim>\<open>width\<close> and
  \<^verbatim>\<open>height\<close> may be missing.
\<close>

record ITiledMapObject =
  mo_name :: string
  mo_x :: int
  mo_y :: int
  mo_width :: "int option"
  mo_height :: "int option"

text \<open>
  Modelled from the spec: the town's event channel (\<^verbatim>\<open>TownEmitter\<close> is declared in
  \<^verbatim>\<open>types/CoveyTownSocket\<close>, which is not among the sources). The emitter is seen
  through the list of events it was asked to emit, oldest first. The event of a changed
  area is \<^verbatim>\<open>interactableUpdate\<close>, whose payload is the full model of the area.
\<close>

datatype event = InteractableUpdate PosterSessionAreaModel

type_synonym TownEmitter = "event list"

text \<open>
  The object: the fields of the base class (identifier, bounding box, occupants) and the
  three private fields \<^verbatim>\<open>_stars\<close>, \<^verbatim>\<open>_title\<close> and \<^verbatim>\<open>_imageContents\<close>. The emitter the
  object holds a reference to is shared with the town, so a method is a function on the
  pair of the object and the emitter.
\<close>

record PosterSessionArea =
  area_id :: string
  boundingBox :: BoundingBox
  occupants :: "Player list"
  stars :: int
  title :: "string option"
  imageContents :: "string option"

type_synonym area_state = "PosterSessionArea \<times> TownEmitter"

section \<open>The methods of the class\<close>

text \<open>\<^verbatim>\<open>Math.abs\<close> on an integer value.\<close>

definition Math_abs :: "int \<Rightarrow> int" where
  "Math_abs n = (if n < 0 then - n else n)"

text \<open>
  \<^verbatim>\<open>try { body } catch (e) { throw new Error(msg) }\<close>: whatever the body throws is
  replaced by the handler's error.
\<close>

definition try_catch :: "error + 'a \<Rightarrow> error \<Rightarrow> error + 'a" where
  "try_catch body handler = (case body of Inl e \<Rightarrow> Inl handler | Inr v \<Rightarrow> Inr v)"

text \<open>
  The constructor. The call \<^verbatim>\<open>super(id, coordinates, townEmitter)\<close> stores the
  identifier and the bounding box and starts with no occupant (the base class is not
  among the sources; its constructor is taken to do only that). Each of the three
  \<^verbatim>\<open>try\<close> blocks holds one assignment; none of the bodies can throw.
\<close>

definition PosterSessionArea_constructor ::
  "PosterSessionAreaModel \<Rightarrow> BoundingBox \<Rightarrow> error + PosterSessionArea" where
  "PosterSessionArea_constructor m coordinates =
     (case try_catch (Inr (Math_abs (model_stars m))) (Error ''Star rating not given'') of
        Inl e \<Rightarrow> Inl e
      | Inr s \<Rightarrow>
     (case try_catch (Inr (model_imageContents m)) (Error ''Image content not given or invalid'') of
        Inl e \<Rightarrow> Inl e
      | Inr i \<Rightarrow>
     (case try_catch (Inr (model_title m)) (Error ''Title was not given or is invalid'') of
        Inl e \<Rightarrow> Inl e
      | Inr t \<Rightarrow>
          Inr \<lparr>area_id = model_id m, boundingBox = coordinates, occupants = [],
               stars = s, title = t, imageContents = i\<rparr>)))"

definition toModel :: "PosterSessionArea \<Rightarrow> PosterSessionAreaModel" where
  "toModel a =
     \<lparr>model_id = area_id a, model_stars = stars a,
      model_imageContents = imageContents a, model_title = title a\<rparr>"

text \<open>The model of the area \<open>i\<close> when its content is reset: no star, no title, no image.\<close>

definition resetModel :: "string \<Rightarrow> PosterSessionAreaModel" where
  "resetModel i =
     \<lparr>model_id = i, model_stars = 0, model_imageContents = None, model_title = None\<rparr>"

text \<open>
  Modelled from the spec: \<^verbatim>\<open>InteractableArea._emitAreaChanged\<close> (the base class is not
  among the sources): publishes the area's current model through the town's broadcaster
  as one \<^verbatim>\<open>interactableUpdate\<close> event.
\<close>

definition emitAreaChanged :: "area_state \<Rightarrow> area_state" where
  "emitAreaChanged s = (fst s, snd s @ [InteractableUpdate (toModel (fst s))])"

text \<open>
  Modelled from the spec: \<^verbatim>\<open>InteractableArea.remove\<close> (the base class is not among the
  sources): the player leaves the occupant collection, then the area emits a change
  event. The reset of the content when the area empties is the work of the override
  below, which runs after it.
\<close>

definition InteractableArea_remove :: "Player \<Rightarrow> area_state \<Rightarrow> area_state" where
  "InteractableArea_remove player s =
     emitAreaChanged
       ((fst s)\<lparr>occupants := filter (\<lambda>eachPlayer. eachPlayer \<noteq> player) (occupants (fst s))\<rparr>,
        snd s)"

text \<open>
  Modelled from the spec: \<^verbatim>\<open>InteractableArea.add\<close> (the base class is not among the
  sources): the player joins the occupant collection, and nothing else of the area
  changes.
\<close>

definition InteractableArea_add :: "Player \<Rightarrow> area_state \<Rightarrow> area_state" where
  "InteractableArea_add player s = ((fst s)\<lparr>occupants := occupants (fst s) @ [player]\<rparr>, snd s)"

text \<open>
  The body of \<^verbatim>\<open>PosterSessionArea.remove\<close>, with the base class's removal it calls first
  (\<^verbatim>\<open>super.remove(player)\<close>) as a parameter: after that call, the test on the length of
  the occupant list, the reset of the three content fields and the change event.
\<close>

definition remove_override ::
  "(Player \<Rightarrow> area_state \<Rightarrow> area_state) \<Rightarrow> Player \<Rightarrow> area_state \<Rightarrow> area_state" where
  "remove_override super_remove player s =
     (let s1 = super_remove player s in
      if length (occupants (fst s1)) \<le> 0
      then emitAreaChanged ((fst s1)\<lparr>stars := 0, title := None, imageContents := None\<rparr>, snd s1)
      else s1)"

text \<open>\<^verbatim>\<open>PosterSessionArea.remove\<close> on top of the base class's removal as the spec words it.\<close>

definition PosterSessionArea_remove :: "Player \<Rightarrow> area_state \<Rightarrow> area_state" where
  "PosterSessionArea_remove player s = remove_override InteractableArea_remove player s"

definition updateModel :: "PosterSessionAreaModel \<Rightarrow> area_state \<Rightarrow> area_state" where
  "updateModel updatedModel s =
     ((fst s)\<lparr>stars := Math_abs (model_stars updatedModel),
              title := model_title updatedModel,
              imageContents := model_imageContents updatedModel\<rparr>,
      snd s)"

text \<open>\<^verbatim>\<open>!v\<close> for an optional number: true when it is missing and when it is 0.\<close>

definition falsy :: "int option \<Rightarrow> bool" where
  "falsy v = (case v of None \<Rightarrow> True | Some n \<Rightarrow> n = 0)"

definition fromMapObject :: "ITiledMapObject \<Rightarrow> error + PosterSessionArea" where
  "fromMapObject mapObject =
     (if falsy (mo_width mapObject) \<or> falsy (mo_height mapObject)
      then Inl (Error ''Missing width and/or height in mapObject.'')
      else PosterSessionArea_constructor
             \<lparr>model_id = mo_name mapObject, model_stars = 0,
              model_imageContents = None, model_title = None\<rparr>
             \<lparr>bb_x = mo_x mapObject, bb_y = mo_y mapObject,
              bb_width = the (mo_width mapObject), bb_height = the (mo_height mapObject)\<rparr>)"




text \<open>
  Modelled from the spec: the operation \<^verbatim>\<open>incrementStars\<close> of the spec's poster session
  area. The class in \<^verbatim>\<open>PosterSessionArea.ts\<close> declares no such method; this is the spec's
  operation, not one of the class: it increases the star count by exactly 1 and returns
  the new count.
\<close>

definition incrementStars :: "area_state \<Rightarrow> int \<times> area_state" where
  "incrementStars s = (stars (fst s) + 1, ((fst s)\<lparr>stars := stars (fst s) + 1\<rparr>, snd s))"

text \<open>
  The states an area can be in: built by the constructor, then changed by the methods
  above, in any order.
\<close>

inductive reachable :: "area_state \<Rightarrow> bool" where
  constructed: "PosterSessionArea_constructor m c = Inr a \<Longrightarrow> reachable (a, em)"
| added: "reachable s \<Longrightarrow> reachable (InteractableArea_add p s)"
| removed: "reachable s \<Longrightarrow> reachable (PosterSessionArea_remove p s)"
| updated: "reachable s \<Longrightarrow> reachable (updateModel m s)"
| incremented: "reachable s \<Longrightarrow> reachable (snd (incrementStars s))"
| emitted: "reachable s \<Longrightarrow> reachable (emitAreaChanged s)"

section \<open>The area dispatcher\<close>

text \<open>
  The town, the towns store and the area dispatcher (\<^verbatim>\<open>TownsController\<close>, \<^verbatim>\<open>Town\<close> and
  \<^verbatim>\<open>TownsStore\<close>) are not among the sources; only the controller's tests are. This
  section follows the specification: a town has an identifier, a friendly name, its
  connected players, an ordered collection of interactable areas and one broadcaster.
\<close>

text \<open>
  Modelled from the spec: an interactable area of a town is a poster session area or an
  area of another variant, of which only the identifier matters here.
\<close>

datatype Interactable = PosterSession PosterSessionArea | OtherInteractable string

text \<open>Modelled from the spec: the identifier of an interactable area, unique within a town.\<close>

fun interactable_id :: "Interactable \<Rightarrow> string" where
  "interactable_id (PosterSession a) = area_id a"
| "interactable_id (OtherInteractable i) = i"

text \<open>
  Modelled from the spec: the town and the store of all towns (a process-wide registry in
  the spec's words).
\<close>

record Town =
  townID :: string
  friendlyName :: string
  players :: "Player list"
  interactables :: "Interactable list"
  broadcaster :: TownEmitter

type_synonym TownsStore = "Town list"

text \<open>Modelled from the spec: the lookup of a town by its identifier.\<close>

definition getTownByID :: "TownsStore \<Rightarrow> string \<Rightarrow> Town option" where
  "getTownByID store tid = find (\<lambda>t. townID t = tid) store"

text \<open>
  Modelled from the spec: the lookup of the currently joined player of a town that holds
  a session token.
\<close>

definition getPlayerBySessionToken :: "Town \<Rightarrow> string \<Rightarrow> Player option" where
  "getPlayerBySessionToken town token = find (\<lambda>p. sessionToken p = token) (players town)"

text \<open>
  Modelled from the spec: the lookup of an interactable area of a town by its identifier
  (identifiers are unique within a town; the first match is the match).
\<close>

definition findArea :: "Town \<Rightarrow> string \<Rightarrow> Interactable option" where
  "findArea town aid = find (\<lambda>i. interactable_id i = aid) (interactables town)"

text \<open>
  Modelled from the spec: the first three checks of every dispatcher operation, in the
  spec's order, failing at the first violation: the town exists, the session token
  resolves to a player of that town, the target area exists in the town and is a poster
  session area.
\<close>

definition resolvePosterArea ::
  "TownsStore \<Rightarrow> string \<Rightarrow> string \<Rightarrow> string \<Rightarrow> error + (Town \<times> PosterSessionArea)" where
  "resolvePosterArea store tid token aid =
     (case getTownByID store tid of
        None \<Rightarrow> Inl InvalidTownIDError
      | Some town \<Rightarrow>
     (case getPlayerBySessionToken town token of
        None \<Rightarrow> Inl InvalidSessionTokenError
      | Some player \<Rightarrow>
     (case findArea town aid of
        Some (PosterSession a) \<Rightarrow> Inr (town, a)
      | _ \<Rightarrow> Inl InvalidInteractableIDError)))"

text \<open>
  Modelled from the spec: the areas are objects the town owns. The area a method changed
  is written back at the place the lookup by identifier found it.
\<close>

fun replaceArea :: "Interactable list \<Rightarrow> string \<Rightarrow> PosterSessionArea \<Rightarrow> Interactable list" where
  "replaceArea [] aid a = []"
| "replaceArea (i # rest) aid a =
     (if interactable_id i = aid then PosterSession a # rest else i # replaceArea rest aid a)"

text \<open>
  Modelled from the spec: the towns are objects the store owns. A changed town is written
  back at the place the lookup by identifier found it.
\<close>

fun replaceTown :: "TownsStore \<Rightarrow> string \<Rightarrow> Town \<Rightarrow> TownsStore" where
  "replaceTown [] tid t = []"
| "replaceTown (u # rest) tid t =
     (if townID u = tid then t # rest else u # replaceTown rest tid t)"

text \<open>
  Modelled from the spec: the effect of a method on an area and on the broadcaster its
  town shares with it, seen from the store.
\<close>

definition commit :: "TownsStore \<Rightarrow> Town \<Rightarrow> area_state \<Rightarrow> TownsStore" where
  "commit store town s =
     replaceTown store (townID town)
       (town\<lparr>interactables := replaceArea (interactables town) (area_id (fst s)) (fst s),
             broadcaster := snd s\<rparr>)"

text \<open>Modelled from the spec: a field that is present and non-empty.\<close>

definition nonEmpty :: "string option \<Rightarrow> bool" where
  "nonEmpty v = (case v of None \<Rightarrow> False | Some t \<Rightarrow> t \<noteq> [])"

text \<open>
  Modelled from the spec: the fourth check of a create or update of poster content: the
  title and the image payload are both present and non-empty.
\<close>

definition validPayload :: "PosterSessionAreaModel \<Rightarrow> bool" where
  "validPayload m = (nonEmpty (model_title m) \<and> nonEmpty (model_imageContents m))"

text \<open>
  Modelled from the spec: the dispatcher operation \<^verbatim>\<open>createOrUpdatePosterArea\<close>. It
  returns its outcome (the error it rejects with, or nothing) and the towns store after
  the call. It runs the four checks, then \<^verbatim>\<open>updateModel\<close>, then the change event.
\<close>

definition createOrUpdatePosterArea ::
  "TownsStore \<Rightarrow> string \<Rightarrow> string \<Rightarrow> PosterSessionAreaModel \<Rightarrow> (error + unit) \<times> TownsStore" where
  "createOrUpdatePosterArea store tid token m =
     (case resolvePosterArea store tid token (model_id m) of
        Inl e \<Rightarrow> (Inl e, store)
      | Inr (town, a) \<Rightarrow>
          if \<not> validPayload m then (Inl ValidationError, store)
          else (Inr (), commit store town (emitAreaChanged (updateModel m (a, broadcaster town)))))"

section \<open>Example values\<close>

definition alice :: Player where
  "alice = \<lparr>player_id = ''alice'', sessionToken = ''token-a''\<rparr>"

definition bob :: Player where
  "bob = \<lparr>player_id = ''bob'', sessionToken = ''token-b''\<rparr>"

definition box :: BoundingBox where
  "box = \<lparr>bb_x = 0, bb_y = 0, bb_width = 10, bb_height = 20\<rparr>"

definition keynote :: PosterSessionArea where
  "keynote =
     \<lparr>area_id = ''P1'', boundingBox = box, occupants = [alice], stars = 4,
      title = Some ''Keynote'', imageContents = Some ''JPEG''\<rparr>"

definition deserted :: PosterSessionArea where
  "deserted =
     \<lparr>area_id = ''P2'', boundingBox = box, occupants = [], stars = 7,
      title = Some ''Left behind'', imageContents = Some ''PNG''\<rparr>"

definition negModel :: PosterSessionAreaModel where
  "negModel =
     \<lparr>model_id = ''P1'', model_stars = - 5, model_imageContents = Some ''GIF'',
      model_title = None\<rparr>"

definition built :: PosterSessionArea where
  "built =
     \<lparr>area_id = ''P1'', boundingBox = box, occupants = [], stars = 5,
      title = None, imageContents = Some ''GIF''\<rparr>"

definition exampleTown :: Town where
  "exampleTown =
     \<lparr>townID = ''T'', friendlyName = ''Poster town'', players = [alice],
      interactables = [OtherInteractable ''C1'', PosterSession keynote], broadcaster = []\<rparr>"

definition exampleStore :: TownsStore where
  "exampleStore = [exampleTown]"

section \<open>Helper facts\<close>

lemma Math_abs_eq: "Math_abs n = \<bar>n\<bar>"
  by (simp add: Math_abs_def)

lemma constructor_value:
  "PosterSessionArea_constructor m c =
     Inr \<lparr>area_id = model_id m, boundingBox = c, occupants = [],
          stars = \<bar>model_stars m\<bar>, title = model_title m,
          imageContents = model_imageContents m\<rparr>"
  by (simp add: PosterSessionArea_constructor_def try_catch_def Math_abs_eq)

lemma override_emptied:
  assumes "occupants (fst (base p s)) = []"
  shows "remove_override base p s =
           ((fst (base p s))\<lparr>stars := 0, title := None, imageContents := None\<rparr>,
            snd (base p s) @ [InteractableUpdate (resetModel (area_id (fst (base p s))))])"
  using assms
  by (simp add: remove_override_def emitAreaChanged_def toModel_def resetModel_def Let_def)

lemma override_occupants:
  "occupants (fst (remove_override base p s)) = occupants (fst (base p s))"
  by (simp add: remove_override_def emitAreaChanged_def Let_def)

lemma base_remove_occupants:
  "occupants (fst (InteractableArea_remove p s)) = filter (\<lambda>q. q \<noteq> p) (occupants (fst s))"
  by (simp add: InteractableArea_remove_def emitAreaChanged_def)

lemma remove_stars:
  "stars (fst (PosterSessionArea_remove p s)) =
     (if filter (\<lambda>q. q \<noteq> p) (occupants (fst s)) = [] then 0 else stars (fst s))"
  by (simp add: PosterSessionArea_remove_def remove_override_def InteractableArea_remove_def
      emitAreaChanged_def Let_def)

lemma fromMapObject_fails:
  "falsy (mo_width mo) \<or> falsy (mo_height mo) \<Longrightarrow> fromMapObject mo = Inl GeometryError"
  by (simp add: fromMapObject_def GeometryError_def)

lemma fromMapObject_succeeds:
  "\<not> falsy (mo_width mo) \<Longrightarrow> \<not> falsy (mo_height mo) \<Longrightarrow>
   fromMapObject mo =
     Inr \<lparr>area_id = mo_name mo,
          boundingBox = \<lparr>bb_x = mo_x mo, bb_y = mo_y mo,
                         bb_width = the (mo_width mo), bb_height = the (mo_height mo)\<rparr>,
          occupants = [], stars = 0, title = None, imageContents = None\<rparr>"
  by (simp add: fromMapObject_def constructor_value)

lemma falsy_iff: "falsy v \<longleftrightarrow> v = None \<or> v = Some 0"
  by (cases v) (simp_all add: falsy_def)

lemma reachable_stars: "reachable s \<Longrightarrow> 0 \<le> stars (fst s)"
proof (induction rule: reachable.induct)
  case (constructed m c a em)
  then show ?case by (auto simp: constructor_value)
next
  case (added s p)
  then show ?case by (simp add: InteractableArea_add_def)
next
  case (removed s p)
  then show ?case by (simp add: remove_stars)
next
  case (updated s m)
  show ?case by (simp add: updateModel_def Math_abs_eq)
next
  case (incremented s)
  then show ?case by (simp add: incrementStars_def)
next
  case (emitted s)
  then show ?case by (simp add: emitAreaChanged_def)
qed

lemma createOrUpdate_succeeds:
  assumes r: "resolvePosterArea store tid token (model_id m) = Inr (town, a)"
    and v: "validPayload m"
  shows "fst (createOrUpdatePosterArea store tid token m) = Inr ()"
  by (simp add: createOrUpdatePosterArea_def r v)

section \<open>Removing the last occupant\<close>




text \<open>
  Claim C9. Whatever the base class's removal does: whenever the occupant list is empty
  after a call of \<^verbatim>\<open>remove\<close>, the content is reset (star count 0, no title, no image
  payload) and \<^verbatim>\<open>remove\<close> emits a change event with the reset model, the last event the
  emitter receives. Nothing is asked of the list before the call: this is also so when
  the list was empty already, where no occupant leaves.
\<close>

theorem remove_resets_whenever_empty:
  "(occupants (fst (remove_override super_remove p s)) = [] \<longrightarrow>
      stars (fst (remove_override super_remove p s)) = 0
      \<and> title (fst (remove_override super_remove p s)) = None
      \<and> imageContents (fst (remove_override super_remove p s)) = None
      \<and> snd (remove_override super_remove p s) =
          snd (super_remove p s)
          @ [InteractableUpdate (resetModel (area_id (fst (super_remove p s))))])
   \<and> (occupants (fst s) = [] \<and> occupants (fst (super_remove p s)) = occupants (fst s) \<longrightarrow>
      occupants (fst (remove_override super_remove p s)) = []
      \<and> stars (fst (remove_override super_remove p s)) = 0
      \<and> title (fst (remove_override super_remove p s)) = None
      \<and> imageContents (fst (remove_override super_remove p s)) = None
      \<and> snd (remove_override super_remove p s) =
          snd (super_remove p s)
          @ [InteractableUpdate (resetModel (area_id (fst (super_remove p s))))])"
proof (rule conjI; rule impI)
  assume "occupants (fst (remove_override super_remove p s)) = []"
  then have e: "occupants (fst (super_remove p s)) = []"
    by (simp add: override_occupants)
  show "stars (fst (remove_override super_remove p s)) = 0
      \<and> title (fst (remove_override super_remove p s)) = None
      \<and> imageContents (fst (remove_override super_remove p s)) = None
      \<and> snd (remove_override super_remove p s) =
          snd (super_remove p s)
          @ [InteractableUpdate (resetModel (area_id (fst (super_remove p s))))]"
    using e override_emptied [of super_remove p s] by simp
next
  assume "occupants (fst s) = [] \<and> occupants (fst (super_remove p s)) = occupants (fst s)"
  then have e: "occupants (fst (super_remove p s)) = []"
    by simp
  show "occupants (fst (remove_override super_remove p s)) = []
      \<and> stars (fst (remove_override super_remove p s)) = 0
      \<and> title (fst (remove_override super_remove p s)) = None
      \<and> imageContents (fst (remove_override super_remove p s)) = None
      \<and> snd (remove_override super_remove p s) =
          snd (super_remove p s)
          @ [InteractableUpdate (resetModel (area_id (fst (super_remove p s))))]"
    using e override_emptied [of super_remove p s] by simp
qed

theorem remove_resets_whenever_empty_witness:
  "occupants (fst (deserted, []::TownEmitter)) = []
   \<and> occupants (fst (InteractableArea_remove bob (deserted, []))) =
       occupants (fst (deserted, []::TownEmitter))
   \<and> occupants (fst (remove_override InteractableArea_remove bob (deserted, []))) = []
   \<and> stars (fst (remove_override InteractableArea_remove bob (deserted, []))) = 0
   \<and> title (fst (remove_override InteractableArea_remove bob (deserted, []))) = None
   \<and> imageContents (fst (remove_override InteractableArea_remove bob (deserted, []))) = None
   \<and> snd (remove_override InteractableArea_remove bob (deserted, [])) =
       snd (InteractableArea_remove bob (deserted, []))
       @ [InteractableUpdate
            \<lparr>model_id = ''P2'', model_stars = 0, model_imageContents = None,
             model_title = None\<rparr>]"
proof -
  have h: "occupants (fst (deserted, []::TownEmitter)) = []"
    by (simp add: deserted_def)
  have k: "occupants (fst (InteractableArea_remove bob (deserted, []))) =
       occupants (fst (deserted, []::TownEmitter))"
    using h by (simp add: base_remove_occupants)
  have e: "occupants (fst (remove_override InteractableArea_remove bob (deserted, []))) = []"
    using h k by (simp add: override_occupants)
  have i: "area_id (fst (InteractableArea_remove bob (deserted, []))) = ''P2''"
    by (simp add: InteractableArea_remove_def emitAreaChanged_def deserted_def)
  show ?thesis
    using h k e
      remove_resets_whenever_empty [of InteractableArea_remove bob "(deserted, [])"]
    by (simp add: resetModel_def i)
qed

section \<open>The star count\<close>

text \<open>
  Claim C2. For every integer n, the constructor applied to a model with star count n
  succeeds and stores the absolute value of n, and \<^verbatim>\<open>updateModel\<close> with such a model
  stores the absolute value of n as well.
\<close>

theorem stars_stored_as_absolute_value:
  "(\<exists>a. PosterSessionArea_constructor (m\<lparr>model_stars := n\<rparr>) c = Inr a \<and> stars a = \<bar>n\<bar>)
   \<and> stars (fst (updateModel (m\<lparr>model_stars := n\<rparr>) s)) = \<bar>n\<bar>"
  by (simp add: constructor_value updateModel_def Math_abs_eq)

text \<open>
  Claim C7. \<^verbatim>\<open>updateModel\<close> replaces the star count by the absolute value of the new
  model's, and the title and the image payload by the new model's; the occupants, the
  identifier and the bounding box stay as they were, and no event is emitted.
\<close>

theorem updateModel_frame:
  "stars (fst (updateModel m s)) = \<bar>model_stars m\<bar>
   \<and> title (fst (updateModel m s)) = model_title m
   \<and> imageContents (fst (updateModel m s)) = model_imageContents m
   \<and> occupants (fst (updateModel m s)) = occupants (fst s)
   \<and> area_id (fst (updateModel m s)) = area_id (fst s)
   \<and> boundingBox (fst (updateModel m s)) = boundingBox (fst s)
   \<and> snd (updateModel m s) = snd s"
  by (simp add: updateModel_def Math_abs_eq)

text \<open>
  Claim C8. The star count is never negative: it is at least 0 in the area the constructor
  returns; \<^verbatim>\<open>updateModel\<close>, \<^verbatim>\<open>remove\<close> and \<^verbatim>\<open>incrementStars\<close> each keep it at
  least 0; so it is at least 0 in every reachable state.
\<close>

theorem stars_never_negative:
  "(PosterSessionArea_constructor m c = Inr a \<longrightarrow> 0 \<le> stars a)
   \<and> (0 \<le> stars (fst s) \<longrightarrow>
        0 \<le> stars (fst (updateModel u s))
        \<and> 0 \<le> stars (fst (PosterSessionArea_remove p s))
        \<and> 0 \<le> stars (fst (snd (incrementStars s))))
   \<and> (reachable t \<longrightarrow> 0 \<le> stars (fst t))"
proof (intro conjI impI)
  assume "PosterSessionArea_constructor m c = Inr a"
  then show "0 \<le> stars a" by (auto simp: constructor_value)
next
  show "0 \<le> stars (fst (updateModel u s))"
    by (simp add: updateModel_def Math_abs_eq)
next
  assume "0 \<le> stars (fst s)"
  then show "0 \<le> stars (fst (PosterSessionArea_remove p s))"
    by (simp add: remove_stars)
next
  assume "0 \<le> stars (fst s)"
  then show "0 \<le> stars (fst (snd (incrementStars s)))"
    by (simp add: incrementStars_def)
next
  assume "reachable t"
  then show "0 \<le> stars (fst t)" by (rule reachable_stars)
qed

theorem stars_never_negative_witness:
  "PosterSessionArea_constructor negModel box = Inr built
   \<and> 0 \<le> stars built
   \<and> 0 \<le> stars (fst (updateModel negModel (built, [])))
   \<and> 0 \<le> stars (fst (PosterSessionArea_remove alice (built, [])))
   \<and> 0 \<le> stars (fst (snd (incrementStars (built, []))))
   \<and> reachable (PosterSessionArea_remove alice (updateModel negModel (built, [])))
   \<and> 0 \<le> stars (fst (PosterSessionArea_remove alice (updateModel negModel (built, []))))"
proof -
  have c: "PosterSessionArea_constructor negModel box = Inr built"
    by (simp add: constructor_value negModel_def built_def)
  have s: "0 \<le> stars (fst (built, []::TownEmitter))"
    by (simp add: built_def)
  have r: "reachable (PosterSessionArea_remove alice (updateModel negModel (built, [])))"
    by (intro reachable.removed reachable.updated reachable.constructed [OF c])
  show ?thesis
    using c s r
      stars_never_negative [where m = negModel and c = box and a = built
        and s = "(built, [])" and u = negModel and p = alice
        and t = "PosterSessionArea_remove alice (updateModel negModel (built, []))"]
    by simp
qed

section \<open>Construction\<close>

text \<open>
  Claim C5. Construction never fails on the star count, whatever its sign; the claim also
  asks that it fail with a field-specific error for an invalid title or image payload.
  The constructor has a handler for each field (\<^verbatim>\<open>'Title was not given or is invalid'\<close>),
  but the body of each \<^verbatim>\<open>try\<close> is one assignment, which cannot throw: at a model with a
  negative star count and an empty title, which the data model excludes, the constructor
  returns the area with the absolute value of the count and the empty title, and no
  error.
\<close>

theorem constructor_accepts_empty_title:
  "PosterSessionArea_constructor
     \<lparr>model_id = ''P1'', model_stars = - 3, model_imageContents = Some ''JPEG'',
      model_title = Some []\<rparr>
     \<lparr>bb_x = 0, bb_y = 0, bb_width = 10, bb_height = 20\<rparr>
   = Inr \<lparr>area_id = ''P1'',
          boundingBox = \<lparr>bb_x = 0, bb_y = 0, bb_width = 10, bb_height = 20\<rparr>,
          occupants = [], stars = 3, title = Some [], imageContents = Some ''JPEG''\<rparr>"
  by (simp add: PosterSessionArea_constructor_def try_catch_def Math_abs_def)

section \<open>Areas from map objects\<close>

text \<open>
  Claim C4, as amended. \<^verbatim>\<open>fromMapObject\<close> fails with the geometry error exactly when the
  width or the height is missing or 0; for every map object whose width and height are
  both present and not 0 it returns the area with the object's name and geometry, no
  occupant, star count 0 and neither title nor image payload.
\<close>

theorem fromMapObject_geometry:
  "(fromMapObject mo = Inl GeometryError \<longleftrightarrow>
      mo_width mo = None \<or> mo_width mo = Some 0 \<or> mo_height mo = None \<or> mo_height mo = Some 0)
   \<and> (\<forall>w h. mo_width mo = Some w \<and> w \<noteq> 0 \<and> mo_height mo = Some h \<and> h \<noteq> 0 \<longrightarrow>
        fromMapObject mo =
          Inr \<lparr>area_id = mo_name mo,
               boundingBox = \<lparr>bb_x = mo_x mo, bb_y = mo_y mo, bb_width = w, bb_height = h\<rparr>,
               occupants = [], stars = 0, title = None, imageContents = None\<rparr>)"
proof (intro conjI allI impI)
  show "fromMapObject mo = Inl GeometryError \<longleftrightarrow>
      mo_width mo = None \<or> mo_width mo = Some 0 \<or> mo_height mo = None \<or> mo_height mo = Some 0"
  proof (cases "falsy (mo_width mo) \<or> falsy (mo_height mo)")
    case True
    then show ?thesis
      using fromMapObject_fails [of mo] by (auto simp: falsy_iff)
  next
    case False
    then show ?thesis
      using fromMapObject_succeeds [of mo] by (auto simp: falsy_iff)
  qed
next
  fix w h
  assume "mo_width mo = Some w \<and> w \<noteq> 0 \<and> mo_height mo = Some h \<and> h \<noteq> 0"
  then show "fromMapObject mo =
          Inr \<lparr>area_id = mo_name mo,
               boundingBox = \<lparr>bb_x = mo_x mo, bb_y = mo_y mo, bb_width = w, bb_height = h\<rparr>,
               occupants = [], stars = 0, title = None, imageContents = None\<rparr>"
    using fromMapObject_succeeds [of mo] by (simp add: falsy_iff)
qed

theorem fromMapObject_geometry_witness:
  "fromMapObject \<lparr>mo_name = ''P1'', mo_x = 3, mo_y = 4, mo_width = Some 10, mo_height = Some 20\<rparr>
   = Inr \<lparr>area_id = ''P1'',
          boundingBox = \<lparr>bb_x = 3, bb_y = 4, bb_width = 10, bb_height = 20\<rparr>,
          occupants = [], stars = 0, title = None, imageContents = None\<rparr>"
  using fromMapObject_geometry
    [of "\<lparr>mo_name = ''P1'', mo_x = 3, mo_y = 4, mo_width = Some 10, mo_height = Some 20\<rparr>"]
  by simp

text \<open>
  The claim as stated fails: a map object whose width is present and 0 is rejected.
\<close>

theorem fromMapObject_zero_width_counterexample:
  "fromMapObject \<lparr>mo_name = ''P1'', mo_x = 3, mo_y = 4, mo_width = Some 0, mo_height = Some 20\<rparr>
   = Inl GeometryError"
  by (simp add: fromMapObject_def falsy_def GeometryError_def)

text \<open>
  Claim C10. \<^verbatim>\<open>fromMapObject\<close> fails with the geometry error for every map object whose
  width is 0 or whose height is 0.
\<close>

theorem fromMapObject_rejects_zero:
  assumes "mo_width mo = Some 0 \<or> mo_height mo = Some 0"
  shows "fromMapObject mo = Inl GeometryError"
  using assms by (auto simp: falsy_def intro: fromMapObject_fails)

theorem fromMapObject_rejects_zero_witness:
  "fromMapObject \<lparr>mo_name = ''P3'', mo_x = 1, mo_y = 2, mo_width = Some 5, mo_height = Some 0\<rparr>
   = Inl GeometryError"
  using fromMapObject_rejects_zero
    [of "\<lparr>mo_name = ''P3'', mo_x = 1, mo_y = 2, mo_width = Some 5, mo_height = Some 0\<rparr>"]
  by simp

section \<open>Raising the star count\<close>




section \<open>The dispatcher operations\<close>

text \<open>
  Claim C6. A create or update of poster content whose title is missing or empty, or whose
  image payload is missing or empty, is always rejected and leaves the towns store as it
  was: no area content, no occupant list and no broadcaster changes. The error is
  \<^verbatim>\<open>ValidationError\<close> whenever the town, the session token and the area resolve, that
  is, whenever the request gets as far as the check of the payload.
\<close>

theorem invalid_payload_rejected:
  assumes "model_title m = None \<or> model_title m = Some []
         \<or> model_imageContents m = None \<or> model_imageContents m = Some []"
  shows "isl (fst (createOrUpdatePosterArea store tid token m))
       \<and> snd (createOrUpdatePosterArea store tid token m) = store
       \<and> ((\<exists>town a. resolvePosterArea store tid token (model_id m) = Inr (town, a)) \<longrightarrow>
            fst (createOrUpdatePosterArea store tid token m) = Inl ValidationError)"
proof -
  from assms have "\<not> validPayload m"
    by (auto simp: validPayload_def nonEmpty_def)
  then show ?thesis
    by (auto simp: createOrUpdatePosterArea_def split: sum.splits)
qed

theorem invalid_payload_rejected_witness:
  "model_title negModel = None
   \<and> resolvePosterArea exampleStore ''T'' ''token-a'' (model_id negModel) = Inr (exampleTown, keynote)
   \<and> createOrUpdatePosterArea exampleStore ''T'' ''token-a'' negModel
       = (Inl ValidationError, exampleStore)"
proof -
  have h: "model_title negModel = None"
    by (simp add: negModel_def)
  have r: "resolvePosterArea exampleStore ''T'' ''token-a'' (model_id negModel)
             = Inr (exampleTown, keynote)"
    by (simp add: resolvePosterArea_def exampleStore_def exampleTown_def getTownByID_def
        getPlayerBySessionToken_def findArea_def alice_def keynote_def negModel_def)
  have "fst (createOrUpdatePosterArea exampleStore ''T'' ''token-a'' negModel) = Inl ValidationError
      \<and> snd (createOrUpdatePosterArea exampleStore ''T'' ''token-a'' negModel) = exampleStore"
    using r invalid_payload_rejected [of negModel exampleStore "''T''" "''token-a''"] h
    by blast
  then show ?thesis
    using h r by (simp add: prod_eq_iff)
qed

end
